theory Spec2Isabelle
  imports Main "HOL-Library.Option_ord"
begin

section \<open>Content nodes\<close>

text \<open>
  The module under study is \<^verbatim>\<open>src/lib/ContentModule.js\<close>: the class \<^verbatim>\<open>ContentModule\<close>,
  which keeps a tree of course content in one document collection.  A document is a
  JavaScript object; the fields the module reads or writes are the fields of the record
  \<open>node\<close>, a field the object lacks (\<^verbatim>\<open>undefined\<close>) is \<open>None\<close>.  Field \<open>n_x\<close> stands for
  the JavaScript field \<^verbatim>\<open>_x\<close>.
\<close>

datatype ctype = Course | Config | Menu | Page | Article | Block | Component

datatype layout = LFull | LLeft | LRight

text \<open>A plugin name as an array holds it: \<open>None\<close> is \<^verbatim>\<open>undefined\<close>.\<close>

type_synonym plugin = "string option"

record node =
  n_id :: nat
  n_type :: ctype
  n_parentId :: "nat option"
  n_courseId :: "nat option"
  n_sortOrder :: "int option"
  n_layout :: "layout option"
  n_component :: plugin
  n_enabledPlugins :: "plugin list"
  n_menu :: plugin
  n_theme :: plugin
  n_trackingId :: "nat option"
  n_createdBy :: "string option"
  n_lang :: "string option"
  n_defaultLanguage :: "string option"
  n_fields :: "(string \<times> string) list"

text \<open>
  \<open>n_enabledPlugins\<close> is a list: a config without the field reads as the empty list, the
  default the config schema gives it.  \<open>n_fields\<close> holds the remaining, schema-driven
  fields (title, body, ...) as written, later entries first.
\<close>

definition blank :: "ctype \<Rightarrow> node" where
  "blank t = \<lparr>n_id = 0, n_type = t, n_parentId = None, n_courseId = None,
     n_sortOrder = None, n_layout = None, n_component = None, n_enabledPlugins = [],
     n_menu = None, n_theme = None, n_trackingId = None, n_createdBy = None,
     n_lang = None, n_defaultLanguage = None, n_fields = []\<rparr>"

text \<open>
  The data of an update, and the \<^verbatim>\<open>customData\<close> and \<^verbatim>\<open>globalData\<close> of a clone: the fields
  an object literal sets.  A field that is not set is \<open>None\<close>; \<open>d_sortOrder = Some None\<close>
  sets \<^verbatim>\<open>_sortOrder\<close> to a value that is not a number (\<^verbatim>\<open>undefined\<close>, \<^verbatim>\<open>NaN\<close>).
\<close>

record delta =
  d_parentId :: "nat option"
  d_courseId :: "nat option"
  d_sortOrder :: "int option option"
  d_layout :: "layout option"
  d_enabledPlugins :: "plugin list option"
  d_fields :: "(string \<times> string) list"

definition empty_delta :: delta where
  "empty_delta = \<lparr>d_parentId = None, d_courseId = None, d_sortOrder = None,
     d_layout = None, d_enabledPlugins = None, d_fields = []\<rparr>"

text \<open>The shallow merge \<^verbatim>\<open>{ ...n, ...d }\<close> (and \<^verbatim>\<open>Object.assign(n, d)\<close>).\<close>

definition apply_delta :: "delta \<Rightarrow> node \<Rightarrow> node" where
  "apply_delta d n = n\<lparr>
     n_parentId := (case d_parentId d of None \<Rightarrow> n_parentId n | Some p \<Rightarrow> Some p),
     n_courseId := (case d_courseId d of None \<Rightarrow> n_courseId n | Some c \<Rightarrow> Some c),
     n_sortOrder := (case d_sortOrder d of None \<Rightarrow> n_sortOrder n | Some so \<Rightarrow> so),
     n_layout := (case d_layout d of None \<Rightarrow> n_layout n | Some l \<Rightarrow> Some l),
     n_enabledPlugins := (case d_enabledPlugins d of None \<Rightarrow> n_enabledPlugins n | Some ps \<Rightarrow> ps),
     n_fields := d_fields d @ n_fields n\<rparr>"

datatype error = NOT_FOUND | INVALID_PARENT | PlainError | TypeError | ValidationFailure

text \<open>
  \<open>NOT_FOUND\<close> and \<open>INVALID_PARENT\<close> are \<^verbatim>\<open>this.app.errors.NOT_FOUND\<close> and
  \<^verbatim>\<open>this.app.errors.INVALID_PARENT\<close>; \<open>PlainError\<close> is \<^verbatim>\<open>throw Error()\<close>; \<open>TypeError\<close> is what
  JavaScript raises on reading a property of \<^verbatim>\<open>undefined\<close>; \<open>ValidationFailure\<close> is the schema
  collaborator refusing a document.
\<close>

section \<open>The document store\<close>

text \<open>
  The base class \<^verbatim>\<open>AbstractApiModule\<close> (package \<^verbatim>\<open>adapt-authoring-api\<close>) is the store
  adapter; it is an external collaborator.  Its four operations follow the interface the
  module consumes and the mocks of the test suite (\<^verbatim>\<open>src/tests/*.spec.js\<close>): the collection
  is a list of documents in insertion order, \<^verbatim>\<open>insert\<close> assigns a fresh \<^verbatim>\<open>_id\<close> and appends,
  \<^verbatim>\<open>update\<close> merges the data into the first match, \<^verbatim>\<open>delete\<close> removes the first match.
  Every write is recorded in \<open>wlog\<close>, so that "performs no store write" can be stated.
\<close>

datatype wop = WInsert nat | WUpdate nat | WDelete nat

record store =
  docs :: "node list"
  next_id :: nat
  wlog :: "wop list"

type_synonym 'a result = "(error + 'a) \<times> store"

record env =
  e_validate :: "node \<Rightarrow> bool"
  e_extensions :: "string list"
  e_pluginSchemas :: "plugin \<Rightarrow> string list"
  e_schemaRef :: "string \<Rightarrow> string option option"
  e_defaultLanguage :: string
  e_translate :: "string \<Rightarrow> string \<Rightarrow> string"

text \<open>
  The collaborators of the module: \<open>e_validate\<close> is schema validation on insert,
  \<open>e_extensions\<close> the names \<^verbatim>\<open>contentplugin.find({ type: 'extension' })\<close> yields,
  \<open>e_pluginSchemas\<close> is \<^verbatim>\<open>contentplugin.getPluginSchemas\<close>, \<open>e_schemaRef name\<close> is \<open>None\<close> when
  \<^verbatim>\<open>jsonschema.schemas[name]\<close> is undefined and otherwise the \<^verbatim>\<open>$ref\<close> of the schema's
  \<^verbatim>\<open>$merge\<close> or \<^verbatim>\<open>$patch\<close> source, \<open>e_translate\<close> is \<^verbatim>\<open>this.app.lang.translate\<close>.
\<close>

definition andThen :: "'a result \<Rightarrow> ('a \<Rightarrow> store \<Rightarrow> 'b result) \<Rightarrow> 'b result" where
  "andThen r f = (case r of (Inl e, s) \<Rightarrow> (Inl e, s) | (Inr a, s) \<Rightarrow> f a s)"

text \<open>
  \<^verbatim>\<open>await Promise.all([a, b])\<close> of two calls: both run (a rejection of one does not stop
  the other), and the call rejects if one of them does.  The two calls the module pairs
  write different fields, so they are run here one after the other, in array order.
\<close>

definition promise_all2 ::
  "(store \<Rightarrow> unit result) \<Rightarrow> (store \<Rightarrow> unit result) \<Rightarrow> store \<Rightarrow> unit result" where
  "promise_all2 a b s =
     (case a s of (r1, s1) \<Rightarrow>
        (case b s1 of (r2, s2) \<Rightarrow>
           (case r1 of Inl e \<Rightarrow> (Inl e, s2) | Inr _ \<Rightarrow> (r2, s2))))"

definition find_docs :: "(node \<Rightarrow> bool) \<Rightarrow> store \<Rightarrow> node list" where
  "find_docs q s = filter q (docs s)"

definition by_id :: "nat option \<Rightarrow> node \<Rightarrow> bool" where
  "by_id i n = (i = Some (n_id n))"

definition by_parentId :: "nat \<Rightarrow> node \<Rightarrow> bool" where
  "by_parentId p n = (n_parentId n = Some p)"

definition by_courseId :: "nat option \<Rightarrow> node \<Rightarrow> bool" where
  "by_courseId c n = (n_courseId n = c)"

fun update_first :: "('a \<Rightarrow> bool) \<Rightarrow> ('a \<Rightarrow> 'a) \<Rightarrow> 'a list \<Rightarrow> 'a list" where
  "update_first q f [] = []"
| "update_first q f (x # xs) = (if q x then f x # xs else x # update_first q f xs)"


definition super_insert :: "env \<Rightarrow> node \<Rightarrow> store \<Rightarrow> node result" where
  "super_insert ev data s =
     (if e_validate ev data
      then (let doc = data\<lparr>n_id := next_id s\<rparr>
            in (Inr doc, s\<lparr>docs := docs s @ [doc], next_id := Suc (next_id s),
                           wlog := wlog s @ [WInsert (next_id s)]\<rparr>))
      else (Inl ValidationFailure, s))"

definition super_update :: "(node \<Rightarrow> bool) \<Rightarrow> delta \<Rightarrow> store \<Rightarrow> node result" where
  "super_update q d s =
     (case find_docs q s of
        [] \<Rightarrow> (Inl NOT_FOUND, s)
      | n # _ \<Rightarrow> (Inr (apply_delta d n),
                  s\<lparr>docs := update_first q (apply_delta d) (docs s),
                    wlog := wlog s @ [WUpdate (n_id n)]\<rparr>))"


section \<open>Sort-order maintenance\<close>

text \<open>
  \<^verbatim>\<open>findSiblings(parentId, excludeId)\<close>: the documents with that \<^verbatim>\<open>_parentId\<close>, without the one
  whose \<^verbatim>\<open>_id\<close> is \<^verbatim>\<open>excludeId\<close>, sorted ascending by \<^verbatim>\<open>_sortOrder\<close> by the database (a
  document without the field sorts first; \<open>sort_key\<close> is stable).
\<close>

definition findSiblings :: "nat \<Rightarrow> nat option \<Rightarrow> store \<Rightarrow> node list" where
  "findSiblings parentId excludeId s =
     sort_key n_sortOrder
       (find_docs (\<lambda>n. by_parentId parentId n \<and> \<not> by_id excludeId n) s)"

definition sortOrder_delta :: "int option \<Rightarrow> delta" where
  "sortOrder_delta so = empty_delta\<lparr>d_sortOrder := Some so\<rparr>"

text \<open>The loop \<^verbatim>\<open>for (let s = 0; s < siblings.length; s++)\<close>, from index \<open>k\<close> on.\<close>

fun renumber :: "node list \<Rightarrow> nat \<Rightarrow> store \<Rightarrow> unit result" where
  "renumber [] k s = (Inr (), s)"
| "renumber (sibling # rest) k s =
     (if n_sortOrder sibling \<noteq> Some (int k + 1)
      then (case super_update (by_id (Some (n_id sibling))) (sortOrder_delta (Some (int k + 1))) s of
              (Inl e, s') \<Rightarrow> (Inl e, s')
            | (Inr _, s') \<Rightarrow> renumber rest (Suc k) s')
      else renumber rest (Suc k) s)"

text \<open>\<^verbatim>\<open>siblings.splice(newSO, 0, item)\<close>: a start past the end is the end.\<close>

definition splice_in :: "nat \<Rightarrow> 'a \<Rightarrow> 'a list \<Rightarrow> 'a list" where
  "splice_in i x xs = take i xs @ x # drop i xs"

definition newSO :: "node \<Rightarrow> node list \<Rightarrow> nat" where
  "newSO item siblings =
     (case n_sortOrder item of
        Some so \<Rightarrow> if so - 1 > - 1 then nat (so - 1) else length siblings
      | None \<Rightarrow> length siblings)"

definition updateSortOrder :: "node \<Rightarrow> bool \<Rightarrow> store \<Rightarrow> unit result" where
  "updateSortOrder item updateData s =
     (if n_type item = Config \<or> n_type item = Course then (Inr (), s)
      else case n_parentId item of
        None \<Rightarrow> (Inr (), s)
      | Some pid \<Rightarrow>
          (if updateData
           then (let siblings = findSiblings pid (Some (n_id item)) s
                 in renumber (splice_in (newSO item siblings) item siblings) 0 s)
           else (case find_docs (by_id (Some pid)) s of
                   [] \<Rightarrow> (Inl TypeError, s)
                 | parent # _ \<Rightarrow> renumber (findSiblings (n_id parent) None s) 0 s)))"

section \<open>The enabled-plugin list of a course\<close>

text \<open>\<^verbatim>\<open>Array.from(new Set(xs))\<close>: the first occurrence of each member, in order.\<close>

fun uniq :: "'a list \<Rightarrow> 'a list \<Rightarrow> 'a list" where
  "uniq seen [] = seen"
| "uniq seen (x # xs) = (if x \<in> set seen then uniq seen xs else uniq (seen @ [x]) xs)"

definition type_name :: "ctype \<Rightarrow> string" where
  "type_name t = (case t of Course \<Rightarrow> ''course'' | Config \<Rightarrow> ''config'' | Menu \<Rightarrow> ''menu''
     | Page \<Rightarrow> ''page'' | Article \<Rightarrow> ''article'' | Block \<Rightarrow> ''block''
     | Component \<Rightarrow> ''component'')"

text \<open>\<^verbatim>\<open>if (t && t !== 'component' && !m.includes(t)) m.push(t)\<close>\<close>

fun add_type :: "string list \<Rightarrow> string option \<Rightarrow> string list" where
  "add_type m None = m"
| "add_type m (Some t) = (if t \<noteq> [] \<and> t \<noteq> ''component'' \<and> t \<notin> set m then m @ [t] else m)"

text \<open>
  The second \<^verbatim>\<open>reduce\<close> of \<^verbatim>\<open>types\<close>: reading \<^verbatim>\<open>.raw\<close> of a schema that is not registered
  raises.
\<close>

fun schema_types :: "env \<Rightarrow> string list \<Rightarrow> string list \<Rightarrow> error + string list" where
  "schema_types ev types [] = Inr types"
| "schema_types ev types (pluginSchemaName # rest) =
     (case e_schemaRef ev pluginSchemaName of
        None \<Rightarrow> Inl TypeError
      | Some ref \<Rightarrow>
          schema_types ev
            (foldl add_type types
               (if ref = Some ''contentobject'' then [Some ''menu'', Some ''page''] else [ref]))
            rest)"

definition enabledPlugins_delta :: "plugin list \<Rightarrow> delta" where
  "enabledPlugins_delta ps = empty_delta\<lparr>d_enabledPlugins := Some ps\<rparr>"

text \<open>\<^verbatim>\<open>Promise.all(toUpdate.map(c => super.update({ _id: c._id }, {})))\<close>\<close>

fun resave_all :: "node list \<Rightarrow> store \<Rightarrow> unit result" where
  "resave_all [] s = (Inr (), s)"
| "resave_all (c # cs) s =
     (case super_update (by_id (Some (n_id c))) empty_delta s of
        (Inl e, s') \<Rightarrow> (Inl e, s')
      | (Inr _, s') \<Rightarrow> resave_all cs s')"

text \<open>The candidate list \<^verbatim>\<open>_enabledPlugins\<close> that \<^verbatim>\<open>updateEnabledPlugins\<close> computes.\<close>

definition candidatePlugins :: "env \<Rightarrow> node \<Rightarrow> node list \<Rightarrow> plugin list" where
  "candidatePlugins ev config contentItems =
     uniq []
       (filter (\<lambda>name. name \<in> set (map Some (e_extensions ev))) (n_enabledPlugins config)
        @ map n_component (filter (\<lambda>c. n_type c = Component) contentItems)
        @ [n_menu config, n_theme config])"

definition updateEnabledPlugins :: "env \<Rightarrow> nat option \<Rightarrow> bool \<Rightarrow> store \<Rightarrow> unit result" where
  "updateEnabledPlugins ev courseId forceUpdate s =
     (let contentItems = find_docs (by_courseId courseId) s
      in case filter (\<lambda>c. n_type c = Config) contentItems of
        [] \<Rightarrow> (Inr (), s)
      | config # _ \<Rightarrow>
          (let enabledPlugins = candidatePlugins ev config contentItems
           in if \<not> forceUpdate
                 \<and> length (n_enabledPlugins config) = length enabledPlugins
                 \<and> (\<forall>p \<in> set (n_enabledPlugins config). p \<in> set enabledPlugins)
              then (Inr (), s)
              else (case schema_types ev []
                           (concat (map (e_pluginSchemas ev)
                              (filter (\<lambda>p. forceUpdate \<or> p \<notin> set (n_enabledPlugins config))
                                 enabledPlugins))) of
                      Inl e \<Rightarrow> (Inl e, s)
                    | Inr types \<Rightarrow>
                        andThen
                          (super_update (\<lambda>n. by_courseId courseId n \<and> n_type n = Config)
                             (enabledPlugins_delta enabledPlugins) s)
                          (\<lambda>_ s1. if types \<noteq> []
                             then resave_all
                                    (find_docs (\<lambda>n. by_courseId courseId n
                                        \<and> type_name (n_type n) \<in> set types) s1) s1
                             else (Inr (), s1)))))"

section \<open>insert, update, delete\<close>

record opts =
  o_updateSortOrder :: bool
  o_updateEnabledPlugins :: bool
  o_stringLocalisation :: "string option"

text \<open>
  \<open>o_updateSortOrder\<close> is \<^verbatim>\<open>options.updateSortOrder !== false\<close>, and likewise
  \<open>o_updateEnabledPlugins\<close>; \<open>default_opts\<close> is the object \<^verbatim>\<open>{}\<close>.
\<close>

definition default_opts :: opts where
  "default_opts = \<lparr>o_updateSortOrder = True, o_updateEnabledPlugins = True,
     o_stringLocalisation = None\<rparr>"

definition courseId_delta :: "nat \<Rightarrow> delta" where
  "courseId_delta c = empty_delta\<lparr>d_courseId := Some c\<rparr>"

definition update_content :: "env \<Rightarrow> (node \<Rightarrow> bool) \<Rightarrow> delta \<Rightarrow> store \<Rightarrow> node result" where
  "update_content ev query data s =
     andThen (super_update query data s) (\<lambda>doc s1.
       andThen
         (promise_all2 (updateSortOrder doc True)
            (updateEnabledPlugins ev (n_courseId doc) (d_enabledPlugins data \<noteq> None)) s1)
         (\<lambda>_ s2. (Inr doc, s2)))"

definition insert_content :: "env \<Rightarrow> node \<Rightarrow> opts \<Rightarrow> store \<Rightarrow> node result" where
  "insert_content ev data options s =
     (if n_type data \<noteq> Course \<and> n_type data \<noteq> Config
         \<and> find_docs (by_id (n_parentId data)) s = []
      then (Inl PlainError, s)
      else andThen (super_insert ev data s) (\<lambda>doc s1.
        if n_type data = Course
        then update_content ev (by_id (Some (n_id doc))) (courseId_delta (n_id doc)) s1
        else andThen
               (promise_all2
                  (\<lambda>s. if o_updateSortOrder options then updateSortOrder doc True s
                        else (Inr (), s))
                  (\<lambda>s. if o_updateEnabledPlugins options
                        then updateEnabledPlugins ev (n_courseId doc) False s
                        else (Inr (), s)) s1)
               (\<lambda>_ s2. (Inr doc, s2))))"

text \<open>
  The \<^verbatim>\<open>do ... while (items.length)\<close> loop of \<^verbatim>\<open>getDescendants\<close>.  It does not end on a
  collection whose parent links form a cycle; not returning is the value \<open>None\<close>.
\<close>

partial_function (option) descend_levels ::
  "node list \<Rightarrow> node list \<Rightarrow> node list \<Rightarrow> node list option" where
  "descend_levels courseItems items descendants =
     (let items' = concat (map (\<lambda>i. filter (\<lambda>c. n_parentId c = Some (n_id i)) courseItems) items);
          descendants' = descendants @ items'
      in if items' \<noteq> [] then descend_levels courseItems items' descendants'
         else Some descendants')"

declare descend_levels.simps [code]

text \<open>An element \<open>None\<close> of the returned array is \<^verbatim>\<open>undefined\<close>.\<close>

definition getDescendants :: "node \<Rightarrow> store \<Rightarrow> node option list option" where
  "getDescendants rootItem s =
     (let courseItems = find_docs (by_courseId (n_courseId rootItem)) s
      in case descend_levels courseItems [rootItem] [] of
        None \<Rightarrow> None
      | Some descendants \<Rightarrow>
          Some (map Some descendants
                @ (if n_type rootItem = Course
                   then [List.find (\<lambda>c. n_type c = Config) courseItems] else [])))"



section \<open>Building a chain of nodes\<close>

text \<open>\<^verbatim>\<open>xs.indexOf(x)\<close>, \<^verbatim>\<open>xs.slice(a)\<close>, \<^verbatim>\<open>xs.slice(a, b)\<close> and \<^verbatim>\<open>xs[i]\<close> on arrays.\<close>

definition indexOf :: "'a list \<Rightarrow> 'a \<Rightarrow> int" where
  "indexOf xs x = (if x \<in> set xs then int (length (takeWhile (\<lambda>y. y \<noteq> x) xs)) else - 1)"

definition slice_from :: "int \<Rightarrow> 'a list \<Rightarrow> 'a list" where
  "slice_from a xs = drop (nat a) xs"

definition slice :: "int \<Rightarrow> int \<Rightarrow> 'a list \<Rightarrow> 'a list" where
  "slice a b xs = take (nat b - nat a) (drop (nat a) xs)"

definition at_index :: "'a list \<Rightarrow> int \<Rightarrow> 'a option" where
  "at_index xs i = (if 0 \<le> i \<and> nat i < length xs then Some (xs ! nat i) else None)"

text \<open>\<^verbatim>\<open>Object.assign({ _type, createdBy }, defaultData[_type])\<close>\<close>

definition defaultData :: "env \<Rightarrow> string \<Rightarrow> string \<Rightarrow> ctype \<Rightarrow> node" where
  "defaultData ev stringLocalisation createdBy t =
     (let n = (blank t)\<lparr>n_createdBy := Some createdBy\<rparr>;
          tr = e_translate ev stringLocalisation
      in case t of
        Page \<Rightarrow> n\<lparr>n_fields := [(''title'', tr ''app.newpagetitle'')]\<rparr>
      | Article \<Rightarrow> n\<lparr>n_fields := [(''title'', tr ''app.newarticletitle'')]\<rparr>
      | Block \<Rightarrow> n\<lparr>n_fields := [(''title'', tr ''app.newblocktitle'')]\<rparr>
      | Component \<Rightarrow> n\<lparr>n_component := Some ''adapt-contrib-text'', n_layout := Some LFull,
          n_fields := [(''title'', tr ''app.newtextcomponenttitle''),
                       (''body'', tr ''app.newtextcomponentbody'')]\<rparr>
      | _ \<Rightarrow> n)"

text \<open>
  The loop \<^verbatim>\<open>for (const _type of childTypes)\<close> of \<^verbatim>\<open>insertRecursive\<close>, with the variables
  it changes: \<^verbatim>\<open>parent\<close> (\<open>None\<close> when the root was not found), \<^verbatim>\<open>customData\<close> and
  \<^verbatim>\<open>newItems\<close>.  An insert that fails ends the loop with its error: the function has no
  \<^verbatim>\<open>try\<close> around the loop.
\<close>

fun insert_chain ::
  "env \<Rightarrow> string \<Rightarrow> string \<Rightarrow> opts \<Rightarrow> ctype list \<Rightarrow> node option \<Rightarrow> delta \<Rightarrow> node list
     \<Rightarrow> store \<Rightarrow> node list result" where
  "insert_chain ev createdBy lang options [] parent customData newItems s = (Inr newItems, s)"
| "insert_chain ev createdBy lang options (t # ts) parent customData newItems s =
     (case parent of
        None \<Rightarrow> (Inl TypeError, s)
      | Some p \<Rightarrow>
          (case n_courseId p of
             None \<Rightarrow> (Inl TypeError, s)
           | Some cid \<Rightarrow>
               (let data0 = apply_delta customData
                      ((defaultData ev lang createdBy t)
                         \<lparr>n_parentId := Some (n_id p), n_courseId := Some cid,
                          n_lang := n_lang p\<rparr>);
                    data = (if t = Config
                            then data0\<lparr>n_defaultLanguage :=
                                   (case n_lang p of
                                      None \<Rightarrow> Some (e_defaultLanguage ev)
                                    | Some l \<Rightarrow> if l = [] then Some (e_defaultLanguage ev)
                                                else Some l)\<rparr>
                            else data0)
                in case insert_content ev data options s of
                     (Inl e, s1) \<Rightarrow> (Inl e, s1)
                   | (Inr item, s1) \<Rightarrow>
                       insert_chain ev createdBy lang options ts
                         (if t \<noteq> Config then Some item else Some p) empty_delta
                         (newItems @ [item]) s1)))"

definition insertRecursive ::
  "env \<Rightarrow> nat option \<Rightarrow> string \<Rightarrow> delta \<Rightarrow> bool \<Rightarrow> ctype list option \<Rightarrow> opts
     \<Rightarrow> store \<Rightarrow> node list result" where
  "insertRecursive ev rootId createdBy customData isMenu childTypes options s =
     (let lang = (case o_stringLocalisation options of
                    None \<Rightarrow> e_defaultLanguage ev | Some l \<Rightarrow> l)
      in case rootId of
        None \<Rightarrow>
          (case insert_content ev
                  (apply_delta customData ((blank Course)\<lparr>n_createdBy := Some createdBy\<rparr>))
                  default_opts s of
             (Inl e, s1) \<Rightarrow> (Inl e, s1)
           | (Inr parent, s1) \<Rightarrow>
               insert_chain ev createdBy lang options [Config, Page, Article, Block, Component]
                 (Some parent) empty_delta [parent] s1)
      | Some rid \<Rightarrow>
          (let parent = (case find_docs (by_id (Some rid)) s of [] \<Rightarrow> None | p # _ \<Rightarrow> Some p)
           in case childTypes of
             Some cts \<Rightarrow> insert_chain ev createdBy lang options cts parent customData [] s
           | None \<Rightarrow>
               (if isMenu
                then insert_chain ev createdBy lang options
                       [Menu, Page, Article, Block, Component] parent customData [] s
                else (case parent of
                        None \<Rightarrow> (Inl TypeError, s)
                      | Some p \<Rightarrow>
                          (let cts = (if n_type p = Course
                                      then [Course, Page, Article, Block, Component]
                                      else [Course, Menu, Page, Article, Block, Component])
                           in insert_chain ev createdBy lang options
                                (slice_from (indexOf cts (n_type p) + 1) cts)
                                parent customData [] s)))))"

section \<open>Navigating the hierarchy\<close>

text \<open>
  \<^verbatim>\<open>_.sortBy(children, '_sortOrder')\<close> of lodash: stable, ascending, a document without the
  field last.
\<close>

definition sortBy_sortOrder :: "node list \<Rightarrow> node list" where
  "sortBy_sortOrder xs =
     sort_key n_sortOrder (filter (\<lambda>n. n_sortOrder n \<noteq> None) xs)
     @ filter (\<lambda>n. n_sortOrder n = None) xs"

partial_function (option) descendToType :: "node \<Rightarrow> ctype option \<Rightarrow> store \<Rightarrow> node option" where
  "descendToType node type s =
     (let children = find_docs (by_parentId (n_id node)) s
      in if children = [] then Some node
         else (let lastChild = last (sortBy_sortOrder children)
               in if Some (n_type lastChild) = type then Some lastChild
                  else descendToType lastChild type s))"

declare descendToType.simps [code]

partial_function (option) ascendToType ::
  "node \<Rightarrow> ctype option \<Rightarrow> store \<Rightarrow> (error + node) option" where
  "ascendToType node type s =
     (case find_docs (by_id (n_parentId node)) s of
        [] \<Rightarrow> Some (Inl INVALID_PARENT)
      | p # ps \<Rightarrow>
          (let parent = last (p # ps)
           in if Some (n_type parent) = type then Some (Inr parent)
              else ascendToType parent type s))"

declare ascendToType.simps [code]

definition constructToType ::
  "env \<Rightarrow> node \<Rightarrow> ctype option \<Rightarrow> string \<Rightarrow> opts \<Rightarrow> store \<Rightarrow> node list result" where
  "constructToType ev node type userId options s =
     (let typeHierarchy = [Course, Page, Article, Block, Component];
          filteredTypes = slice (indexOf typeHierarchy (n_type node) + 1)
                            (indexOf (map Some typeHierarchy) type + 1) typeHierarchy
      in insertRecursive ev (Some (n_id node)) userId empty_delta False (Some filteredTypes)
           options s)"

section \<open>append, cut, appendToBlock\<close>

definition cut_content :: "env \<Rightarrow> node \<Rightarrow> node \<Rightarrow> int option \<Rightarrow> store \<Rightarrow> node result" where
  "cut_content ev parent child sortOrder s =
     update_content ev (by_id (Some (n_id child)))
       (empty_delta\<lparr>d_parentId := Some (n_id parent), d_sortOrder := Some sortOrder\<rparr>) s"

definition append_content ::
  "env \<Rightarrow> node \<Rightarrow> node \<Rightarrow> bool \<Rightarrow> opts \<Rightarrow> store \<Rightarrow> node result" where
  "append_content ev parent child isCut options s =
     (if isCut then cut_content ev parent child (n_sortOrder child) s
      else insert_content ev
             (child\<lparr>n_courseId := n_courseId parent, n_parentId := Some (n_id parent)\<rparr>)
             options s)"

text \<open>
  In \<^verbatim>\<open>appendToBlock\<close> the call is \<^verbatim>\<open>this.cut(block, component, options)\<close>: the options object
  stands where \<^verbatim>\<open>cut\<close> expects the sort order, so the sort order written is not a number.
\<close>

definition appendToBlock ::
  "env \<Rightarrow> node \<Rightarrow> node \<Rightarrow> string \<Rightarrow> bool \<Rightarrow> opts \<Rightarrow> store \<Rightarrow> node result" where
  "appendToBlock ev block component userId isCut options s =
     (let children = find_docs (by_parentId (n_id block)) s;
          leftChild = List.find (\<lambda>child. n_layout child = Some LLeft) children;
          rightChild = List.find (\<lambda>child. n_layout child = Some LRight) children;
          finish = (\<lambda>block component s.
                      if isCut then cut_content ev block component None s
                      else append_content ev block component isCut options s)
      in if leftChild \<noteq> None \<and> rightChild = None
         then finish block (component\<lparr>n_layout := Some LRight\<rparr>) s
         else if leftChild = None \<and> rightChild \<noteq> None
         then finish block (component\<lparr>n_layout := Some LLeft\<rparr>) s
         else if children \<noteq> []
         then (case insertRecursive ev (n_parentId block) userId
                      (sortOrder_delta (map_option (\<lambda>so. so + 1) (n_sortOrder block)))
                      False (Some [Block]) options s of
                 (Inl e, s1) \<Rightarrow> (Inl e, s1)
               | (Inr [], s1) \<Rightarrow> (Inl TypeError, s1)
               | (Inr (block' # _), s1) \<Rightarrow> finish block' component s1)
         else finish block component s)"

section \<open>clone\<close>

text \<open>
  \<^verbatim>\<open>clone\<close> up to the comment \<^verbatim>\<open>// re-parent the source\<close>: where the copy (or, when cutting,
  the source itself) is placed.  \<open>parent\<close> is the document found for \<^verbatim>\<open>_parentId\<close>, if any.
  The \<^verbatim>\<open>_id\<close> of data handed to an insert is not read: the store assigns one.  The result
  is \<open>None\<close> when one of the two traversals does not return.
\<close>

definition clone_place ::
  "env \<Rightarrow> string \<Rightarrow> node \<Rightarrow> node option \<Rightarrow> nat option \<Rightarrow> delta \<Rightarrow> delta \<Rightarrow> bool \<Rightarrow> opts
     \<Rightarrow> store \<Rightarrow> node result option" where
  "clone_place ev userId originalDoc parent0 parentId customData globalData isCut options s =
     (case parent0 of
        Some parent \<Rightarrow>
          (let typeHierarchy = [Course, Menu, Page, Article, Block, Component];
               sourceType = n_type originalDoc;
               indexOfSourceType = indexOf typeHierarchy (n_type originalDoc);
               indexOfMenuType = indexOf typeHierarchy Menu;
               indexOfPageType = indexOf typeHierarchy Page;
               indexOfGivenTargetType = indexOf typeHierarchy (n_type parent);
               requiredTargetType = at_index typeHierarchy (indexOfSourceType - 1);
               isGivenTargetGrandparentType = (indexOfGivenTargetType < indexOfSourceType - 1);
               proposedData = apply_delta globalData (apply_delta customData
                                (originalDoc\<lparr>n_trackingId := None, n_createdBy := Some userId\<rparr>));
               isSourceMenu = (indexOfSourceType = indexOfMenuType);
               isSourcePage = (indexOfSourceType = indexOfPageType);
               isGivenTargetMenu = (indexOfGivenTargetType = indexOfMenuType);
               isCloneMenuIntoMenu = (isSourceMenu \<and> isGivenTargetMenu);
               isClonePageIntoAncestor = (isSourcePage \<and> indexOfGivenTargetType < indexOfPageType);
               isCloneChildIntoParent = (indexOfGivenTargetType = indexOfSourceType - 1);
               place = (\<lambda>node data s.
                          if n_type originalDoc = Component
                          then appendToBlock ev node data userId isCut options s
                          else append_content ev node data isCut options s);
               complete = (\<lambda>node data s.
                          if Some (n_type node) \<noteq> requiredTargetType
                          then (case constructToType ev node requiredTargetType userId options s of
                                  (Inl e, s1) \<Rightarrow> (Inl e, s1)
                                | (Inr [], s1) \<Rightarrow> (Inl TypeError, s1)
                                | (Inr (c # cs), s1) \<Rightarrow>
                                    append_content ev (last (c # cs)) data isCut options s1)
                          else place node data s)
           in if isCloneMenuIntoMenu \<or> isClonePageIntoAncestor \<or> isCloneChildIntoParent
              then Some (place parent proposedData s)
              else if isGivenTargetGrandparentType
              then (case d_sortOrder customData of
                      Some (Some so) \<Rightarrow>
                        (if so \<noteq> 0
                         then Some (case insertRecursive ev parentId userId
                                           (sortOrder_delta (Some so)) False
                                           (Some [typeHierarchy ! nat (indexOfGivenTargetType + 1)])
                                           options s of
                                      (Inl e, s1) \<Rightarrow> (Inl e, s1)
                                    | (Inr [], s1) \<Rightarrow> (Inl TypeError, s1)
                                    | (Inr (node # _), s1) \<Rightarrow>
                                        complete node (proposedData\<lparr>n_sortOrder := None\<rparr>) s1)
                         else map_option (\<lambda>node. complete node proposedData s)
                                (descendToType parent requiredTargetType s))
                    | _ \<Rightarrow> map_option (\<lambda>node. complete node proposedData s)
                             (descendToType parent requiredTargetType s))
              else (case ascendToType parent (Some sourceType) s of
                      None \<Rightarrow> None
                    | Some (Inl e) \<Rightarrow> Some (Inl e, s)
                    | Some (Inr ancestorOfSourceType) \<Rightarrow>
                        (case ascendToType parent requiredTargetType s of
                           None \<Rightarrow> None
                         | Some (Inl e) \<Rightarrow> Some (Inl e, s)
                         | Some (Inr node) \<Rightarrow>
                             Some (if n_type originalDoc = Component
                                   then appendToBlock ev node proposedData userId isCut options s
                                   else append_content ev node
                                          (proposedData\<lparr>n_sortOrder :=
                                             map_option (\<lambda>so. so + 1)
                                               (n_sortOrder ancestorOfSourceType)\<rparr>)
                                          isCut options s))))
      | None \<Rightarrow>
          Some (insert_content ev
                  (apply_delta globalData (apply_delta customData
                     (originalDoc\<lparr>n_trackingId := None, n_courseId := None,
                        n_parentId := parentId, n_createdBy := Some userId\<rparr>)))
                  options s))"

text \<open>A sequential \<^verbatim>\<open>for\<close> loop of awaited calls: the first failure ends it.\<close>

fun for_each :: "'a list \<Rightarrow> ('a \<Rightarrow> store \<Rightarrow> 'b result option) \<Rightarrow> store \<Rightarrow> unit result option" where
  "for_each [] f s = Some (Inr (), s)"
| "for_each (x # xs) f s =
     (case f x s of
        None \<Rightarrow> None
      | Some (Inl e, s1) \<Rightarrow> Some (Inl e, s1)
      | Some (Inr _, s1) \<Rightarrow> for_each xs f s1)"

text \<open>
  \<^verbatim>\<open>clone\<close> calls itself on the children of the source.  The first argument bounds the
  depth of these calls; \<open>None\<close> is a call that did not return within it.
\<close>

fun clone ::
  "nat \<Rightarrow> env \<Rightarrow> string \<Rightarrow> nat \<Rightarrow> nat option \<Rightarrow> delta \<Rightarrow> delta \<Rightarrow> bool \<Rightarrow> opts
     \<Rightarrow> store \<Rightarrow> node result option" where
  "clone 0 ev userId ident parentId customData globalData isCut options s = None"
| "clone (Suc fuel) ev userId ident parentId customData globalData isCut options s =
     (case find_docs (by_id (Some ident)) s of
        [] \<Rightarrow> Some (Inl NOT_FOUND, s)
      | originalDoc # _ \<Rightarrow>
          (let parent = (case parentId of
                           None \<Rightarrow> None
                         | Some pid \<Rightarrow> (case find_docs (by_id (Some pid)) s of
                                         [] \<Rightarrow> None | p # _ \<Rightarrow> Some p))
           in if parent = None \<and> n_type originalDoc \<noteq> Course \<and> n_type originalDoc \<noteq> Config
              then Some (Inl INVALID_PARENT, s)
              else (case clone_place ev userId originalDoc parent parentId customData globalData
                           isCut options s of
                      None \<Rightarrow> None
                    | Some (Inl e, s1) \<Rightarrow> Some (Inl e, s1)
                    | Some (Inr newData, s1) \<Rightarrow>
                        (if isCut then Some (Inr newData, s1)
                         else (let children = filter (\<lambda>i. n_id i \<noteq> n_id newData)
                                                (find_docs (by_parentId ident) s1)
                               in case for_each children
                                         (\<lambda>child. clone fuel ev userId (n_id child)
                                            (Some (n_id newData)) empty_delta globalData False
                                            options) s1 of
                                    None \<Rightarrow> None
                                  | Some (Inl e, s2) \<Rightarrow> Some (Inl e, s2)
                                  | Some (Inr _, s2) \<Rightarrow> Some (Inr newData, s2))))))"

section \<open>Specification vocabulary\<close>

text \<open>
  What the sort-order loop leaves behind, stated apart from the loop: \<open>new_order L k i\<close> is
  the number the document with \<^verbatim>\<open>_id\<close> \<open>i\<close> gets when \<open>L\<close> is numbered from \<open>k + 1\<close> on,
  \<open>renumbered L k\<close> writes it into a document, and \<open>renumber_writes L k\<close> lists the updates
  of those members of \<open>L\<close> whose \<^verbatim>\<open>_sortOrder\<close> is not yet that number.
\<close>

fun new_order :: "node list \<Rightarrow> nat \<Rightarrow> nat \<Rightarrow> int option" where
  "new_order [] k i = None"
| "new_order (x # xs) k i = (if n_id x = i then Some (int k + 1) else new_order xs (Suc k) i)"

definition renumbered :: "node list \<Rightarrow> nat \<Rightarrow> node \<Rightarrow> node" where
  "renumbered L k n =
     (case new_order L k (n_id n) of None \<Rightarrow> n | Some v \<Rightarrow> n\<lparr>n_sortOrder := Some v\<rparr>)"





text \<open>A call returned (did not throw).\<close>

definition succeeded :: "'a result \<Rightarrow> bool" where
  "succeeded r = (case fst r of Inl _ \<Rightarrow> False | Inr _ \<Rightarrow> True)"



text \<open>
  The transitive descendants of the node with \<^verbatim>\<open>_id\<close> \<open>a\<close> in a collection: its children, their
  children, and so on along \<^verbatim>\<open>_parentId\<close>.
\<close>

inductive_set descendants_of :: "node list \<Rightarrow> nat \<Rightarrow> node set"
  for C :: "node list" and a :: nat where
  child: "c \<in> set C \<Longrightarrow> n_parentId c = Some a \<Longrightarrow> c \<in> descendants_of C a"
| below: "p \<in> descendants_of C a \<Longrightarrow> c \<in> set C \<Longrightarrow> n_parentId c = Some (n_id p)
            \<Longrightarrow> c \<in> descendants_of C a"

section \<open>Example collections\<close>

text \<open>
  The fixtures of the test suite (\<^verbatim>\<open>src/tests/*.spec.js\<close>): a course \<open>1\<close> with the chain
  page \<open>2\<close>, article \<open>3\<close>, block \<open>4\<close>, component \<open>5\<close> (layout \<^verbatim>\<open>full\<close>), and collaborators
  that accept every document and know no plugin schema.
\<close>

definition mkNode :: "nat \<Rightarrow> ctype \<Rightarrow> nat option \<Rightarrow> nat option \<Rightarrow> int option \<Rightarrow> node" where
  "mkNode i t p c so =
     (blank t)\<lparr>n_id := i, n_parentId := p, n_courseId := c, n_sortOrder := so\<rparr>"

definition test_env :: env where
  "test_env = \<lparr>e_validate = (\<lambda>_. True), e_extensions = [], e_pluginSchemas = (\<lambda>_. []),
     e_schemaRef = (\<lambda>_. Some None), e_defaultLanguage = ''en'',
     e_translate = (\<lambda>lang key. key)\<rparr>"

definition chain_store :: store where
  "chain_store = \<lparr>docs =
       [mkNode 1 Course None (Some 1) None,
        mkNode 2 Page (Some 1) (Some 1) (Some 1),
        mkNode 3 Article (Some 2) (Some 1) (Some 1),
        mkNode 4 Block (Some 3) (Some 1) (Some 1),
        (mkNode 5 Component (Some 4) (Some 1) (Some 1))\<lparr>n_layout := Some LFull\<rparr>],
     next_id = 6, wlog = []\<rparr>"

text \<open>Collaborators whose schema validation refuses every block.\<close>

definition no_block_env :: env where
  "no_block_env = test_env\<lparr>e_validate := (\<lambda>n. n_type n \<noteq> Block)\<rparr>"









section \<open>Descendants\<close>

lemma descend_levels_returns:
  assumes rk: "\<forall>c \<in> set C. \<forall>p. n_parentId c = Some p \<longrightarrow> rank (n_id c) < (rank p :: nat)"
  shows "(\<forall>i \<in> set items. rank (n_id i) < k) \<Longrightarrow> \<exists>r. descend_levels C items acc = Some r"
proof (induction k arbitrary: items acc)
  case 0
  then have "items = []" by (cases items) auto
  then show ?case by (subst descend_levels.simps) simp
next
  case (Suc k)
  let ?next = "concat (map (\<lambda>i. filter (\<lambda>c. n_parentId c = Some (n_id i)) C) items)"
  have "\<forall>c \<in> set ?next. rank (n_id c) < k"
  proof
    fix c assume "c \<in> set ?next"
    then obtain i where i: "i \<in> set items" "c \<in> set C" "n_parentId c = Some (n_id i)" by auto
    with rk have "rank (n_id c) < rank (n_id i)" by blast
    moreover from Suc.prems i have "rank (n_id i) < Suc k" by blast
    ultimately show "rank (n_id c) < k" by simp
  qed
  from Suc.IH [OF this] obtain r where "descend_levels C ?next (acc @ ?next) = Some r" by blast
  then show ?case by (subst descend_levels.simps) (simp add: Let_def)
qed

text \<open>
  Claim C10.  \<^verbatim>\<open>getDescendants\<close> of a course pushes the result of the config lookup
  unguarded: when no document of the course is a config, the array it returns ends with
  \<^verbatim>\<open>undefined\<close>.  The function returns on every collection whose parent links descend along
  some rank, that is, have no cycle.
\<close>

theorem getDescendants_course_without_config:
  assumes "n_type rootItem = Course"
    and "\<forall>c \<in> set (docs s). n_courseId c = n_courseId rootItem \<longrightarrow> n_type c \<noteq> Config"
    and "\<forall>c \<in> set (docs s). \<forall>p. n_parentId c = Some p \<longrightarrow> rank (n_id c) < (rank p :: nat)"
  shows "\<exists>ds. getDescendants rootItem s = Some (map Some ds @ [None])"
proof -
  let ?C = "find_docs (by_courseId (n_courseId rootItem)) s"
  have "\<forall>c \<in> set ?C. \<forall>p. n_parentId c = Some p \<longrightarrow> rank (n_id c) < rank p"
    using assms(3) by (simp add: find_docs_def)
  from descend_levels_returns [OF this, of "[rootItem]" "Suc (rank (n_id rootItem))" "[]"]
  obtain ds where ds: "descend_levels ?C [rootItem] [] = Some ds" by auto
  have "List.find (\<lambda>c. n_type c = Config) ?C = None"
    using assms(2) by (auto simp: find_None_iff find_docs_def by_courseId_def)
  with ds assms(1) show ?thesis by (simp add: getDescendants_def)
qed

theorem getDescendants_course_without_config_witness:
  "\<exists>ds. getDescendants (mkNode 1 Course None (Some 1) None) chain_store
           = Some (map Some ds @ [None])"
  using getDescendants_course_without_config
          [of "mkNode 1 Course None (Some 1) None" chain_store "\<lambda>i. 10 - i"]
  by (simp add: chain_store_def mkNode_def blank_def)

section \<open>insert\<close>

lemma insert_content_missing_parent:
  assumes "n_type data \<noteq> Course" and "n_type data \<noteq> Config"
    and "find_docs (by_id (n_parentId data)) s = []"
  shows "insert_content ev data options s = (Inl PlainError, s)"
  using assms by (simp add: insert_content_def)

text \<open>
  Claim C7.  An insert of a component under the parent \<open>9\<close>, which no document has as
  \<^verbatim>\<open>_id\<close>, fails and leaves the collection as it was; the error is the plain \<^verbatim>\<open>Error()\<close> of the
  guard, not \<^verbatim>\<open>INVALID_PARENT\<close> or \<^verbatim>\<open>NOT_FOUND\<close>.
\<close>

theorem insert_content_missing_parent_error:
  "insert_content test_env (mkNode 0 Component (Some 9) (Some 1) None) default_opts chain_store
     = (Inl PlainError, chain_store)"
  by (rule insert_content_missing_parent)
     (simp_all add: mkNode_def blank_def chain_store_def find_docs_def by_id_def)

section \<open>insertRecursive\<close>

text \<open>
  Claim C1.  \<^verbatim>\<open>insertRecursive\<close> into the course \<open>1\<close>, with a schema collaborator that refuses
  blocks: the page \<open>6\<close> and the article \<open>7\<close> are created, the insert of the block fails, the
  call fails with that error, and the page and the article are still in the collection:
  nothing is rolled back.
\<close>

theorem insertRecursive_no_rollback:
  "fst (insertRecursive no_block_env (Some 1) ''user'' empty_delta False None default_opts
          chain_store) = Inl ValidationFailure
   \<and> map (\<lambda>n. (n_id n, n_type n, n_parentId n))
       (docs (snd (insertRecursive no_block_env (Some 1) ''user'' empty_delta False None
                     default_opts chain_store)))
     = [(1, Course, None), (2, Page, Some 1), (3, Article, Some 2), (4, Block, Some 3),
        (5, Component, Some 4), (6, Page, Some 1), (7, Article, Some 6)]"
  by code_simp

section \<open>Facts about the store\<close>

lemma apply_delta_id [simp]: "n_id (apply_delta d n) = n_id n"
  by (simp add: apply_delta_def)

lemma apply_delta_type [simp]: "n_type (apply_delta d n) = n_type n"
  by (simp add: apply_delta_def)


lemma apply_empty_delta [simp]: "apply_delta empty_delta n = n"
  by (simp add: apply_delta_def empty_delta_def)

lemma length_update_first [simp]: "length (update_first q f xs) = length xs"
  by (induction xs) auto

lemma map_update_first: "(\<And>x. g (f x) = g x) \<Longrightarrow> map g (update_first q f xs) = map g xs"
  by (induction xs) auto






lemma renumbered_Nil [simp]: "renumbered [] k n = n"
  by (simp add: renumbered_def)


section \<open>Renumbering a sibling group\<close>

lemma renumbered_parentId [simp]: "n_parentId (renumbered L k n) = n_parentId n"
  by (simp add: renumbered_def split: option.splits)

lemma renumbered_id [simp]: "n_id (renumbered L k n) = n_id n"
  by (simp add: renumbered_def split: option.splits)




section \<open>What an operation leaves unchanged\<close>







section \<open>The effect of updateSortOrder\<close>




lemma splice_in_set [simp]: "set (splice_in i x xs) = insert x (set xs)"
proof -
  have "set (take i xs) \<union> set (drop i xs) = set xs"
    by (metis append_take_drop_id set_append)
  then show ?thesis by (auto simp: splice_in_def)
qed











section \<open>Sort order after update\<close>


lemma succeeded_Inr [simp]: "succeeded (Inr a, s)"
  by (simp add: succeeded_def)












section \<open>Sort order after insert and delete\<close>




lemma find_by_id_None [simp]: "find_docs (by_id None) s = []"
  by (simp add: find_docs_def by_id_def)







section \<open>Contiguous sibling groups\<close>






section \<open>updateSortOrder is idempotent and writes only what changes\<close>



lemma renumbered_type [simp]: "n_type (renumbered L k n) = n_type n"
  by (simp add: renumbered_def split: option.splits)










lemma zip_changed_same:
  "{WUpdate (n_id n) |n n'. (n, n') \<in> set (zip ds ds) \<and> n_sortOrder n' \<noteq> n_sortOrder n} = {}"
  by (auto simp: zip_same)






section \<open>cut\<close>













section \<open>updateEnabledPlugins writes only on a change\<close>

lemma uniq_set: "set (uniq seen xs) = set seen \<union> set xs"
  by (induction xs arbitrary: seen) auto








section \<open>delete returns the target and its descendants\<close>
















end
